theory Spec2Isabelle
  imports Complex_Main
begin

section \<open>Data model of SceneManager.cpp\<close>

text \<open>
  The development embeds the texture registry, the material registry, the transform
  composer and the shader state binder of \<^verbatim>\<open>SceneManager.cpp\<close>.

  The scalar type \<^verbatim>\<open>float\<close> is the type parameter \<open>'f\<close>: the functions embedded here
  only store and copy scalars, all arithmetic on them is done by the glm library, which is
  a parameter of the model (see \<open>glm_ops\<close> below). Console output (\<^verbatim>\<open>std::cout\<close>) is
  not modelled.
\<close>

type_synonym 'f vec2 = "'f \<times> 'f"
type_synonym 'f vec3 = "'f \<times> 'f \<times> 'f"
type_synonym 'f vec4 = "'f \<times> 'f \<times> 'f \<times> 'f"

text \<open>A \<^verbatim>\<open>glm::mat4\<close> is stored column by column.\<close>

type_synonym 'f mat4 = "'f vec4 \<times> 'f vec4 \<times> 'f vec4 \<times> 'f vec4"

text \<open>
  Undefined behaviour of the C++ program is an explicit outcome of the model: calling a
  method through a null \<^verbatim>\<open>m_pShaderManager\<close>, and indexing \<^verbatim>\<open>m_textureIDs\<close> outside
  the array (the fault carries the offending index).
\<close>

datatype fault = NullPointerDereference | ArrayIndexOutOfBounds int

subsection \<open>The shader uniform sink\<close>

datatype 'f uniform_value =
    IntValue int
  | FloatValue 'f
  | Vec2Value "'f vec2"
  | Vec3Value "'f vec3"
  | Vec4Value "'f vec4"
  | Mat4Value "'f mat4"
  | Sampler2DValue int

text \<open>
  Modelled from the spec: the class \<^verbatim>\<open>ShaderManager\<close> is defined outside
  \<^verbatim>\<open>SceneManager.cpp\<close>. Section 6 of the specification describes it as a generic named-uniform push
  interface \<^verbatim>\<open>setFloat/setVec2/setVec3/setVec4/setMat4/setInt(name, value)\<close>. A shader
  manager is the log of the uniform writes it has received, most recent write first; the
  current value of a uniform is the most recent write to its name.
\<close>

type_synonym 'f ShaderManager = "(string \<times> 'f uniform_value) list"

definition setIntValue :: "string \<Rightarrow> int \<Rightarrow> 'f ShaderManager \<Rightarrow> 'f ShaderManager" where
  "setIntValue name v sh = (name, IntValue v) # sh"

definition setFloatValue :: "string \<Rightarrow> 'f \<Rightarrow> 'f ShaderManager \<Rightarrow> 'f ShaderManager" where
  "setFloatValue name v sh = (name, FloatValue v) # sh"

definition setVec2Value :: "string \<Rightarrow> 'f vec2 \<Rightarrow> 'f ShaderManager \<Rightarrow> 'f ShaderManager" where
  "setVec2Value name v sh = (name, Vec2Value v) # sh"

definition setVec3Value :: "string \<Rightarrow> 'f vec3 \<Rightarrow> 'f ShaderManager \<Rightarrow> 'f ShaderManager" where
  "setVec3Value name v sh = (name, Vec3Value v) # sh"

definition setVec4Value :: "string \<Rightarrow> 'f vec4 \<Rightarrow> 'f ShaderManager \<Rightarrow> 'f ShaderManager" where
  "setVec4Value name v sh = (name, Vec4Value v) # sh"

definition setMat4Value :: "string \<Rightarrow> 'f mat4 \<Rightarrow> 'f ShaderManager \<Rightarrow> 'f ShaderManager" where
  "setMat4Value name v sh = (name, Mat4Value v) # sh"

definition setSampler2DValue :: "string \<Rightarrow> int \<Rightarrow> 'f ShaderManager \<Rightarrow> 'f ShaderManager" where
  "setSampler2DValue name v sh = (name, Sampler2DValue v) # sh"

definition uniform :: "'f ShaderManager \<Rightarrow> string \<Rightarrow> 'f uniform_value option" where
  "uniform sh name = map_of sh name"

text \<open>The uniform names of the anonymous namespace at the top of the file.\<close>

definition g_ModelName :: string where "g_ModelName = ''model''"
definition g_ColorValueName :: string where "g_ColorValueName = ''objectColor''"
definition g_TextureValueName :: string where "g_TextureValueName = ''objectTexture''"
definition g_UseTextureName :: string where "g_UseTextureName = ''bUseTexture''"
definition g_UseLightingName :: string where "g_UseLightingName = ''bUseLighting''"

subsection \<open>The graphics context\<close>

text \<open>
  The part of the OpenGL context that the texture functions act on: the texture names
  that have been generated and not deleted, the next unused name, the active texture unit
  (the \<open>i\<close> of \<^verbatim>\<open>GL_TEXTURE0 + i\<close>), the texture bound to \<^verbatim>\<open>GL_TEXTURE_2D\<close> on each
  unit (\<open>0\<close> is no texture), and the internal format of the image uploaded to each name.
  Wrapping and filtering parameters and mipmaps are not recorded.
\<close>

datatype gl_format = GL_RGB8 | GL_RGBA8

record GLContext =
  gl_next_name :: nat
  gl_textures :: "nat list"
  gl_active_unit :: int
  gl_binding_2d :: "int \<Rightarrow> nat"
  gl_images :: "(nat \<times> gl_format \<times> int \<times> int) list"

text \<open>\<^verbatim>\<open>glGenTextures(1, &id)\<close> hands out a name that was not in use.\<close>

definition glGenTextures :: "GLContext \<Rightarrow> nat \<times> GLContext" where
  "glGenTextures g =
     (gl_next_name g,
      g\<lparr>gl_next_name := Suc (gl_next_name g), gl_textures := gl_textures g @ [gl_next_name g]\<rparr>)"

definition glBindTexture :: "nat \<Rightarrow> GLContext \<Rightarrow> GLContext" where
  "glBindTexture texture g =
     g\<lparr>gl_binding_2d := (gl_binding_2d g)(gl_active_unit g := texture)\<rparr>"

definition glActiveTexture :: "int \<Rightarrow> GLContext \<Rightarrow> GLContext" where
  "glActiveTexture i g = g\<lparr>gl_active_unit := i\<rparr>"

definition glTexImage2D :: "gl_format \<Rightarrow> int \<Rightarrow> int \<Rightarrow> GLContext \<Rightarrow> GLContext" where
  "glTexImage2D fmt w h g =
     g\<lparr>gl_images := (gl_binding_2d g (gl_active_unit g), fmt, w, h) # gl_images g\<rparr>"

subsection \<open>Images, textures, materials, the scene manager\<close>

text \<open>
  What \<^verbatim>\<open>stbi_load\<close> reports about a decoded file. The decoder itself is a parameter
  of \<open>CreateGLTexture\<close>: a function from file names to decoded images, \<open>None\<close> where the
  file cannot be read.
\<close>

record image =
  width :: int
  height :: int
  colorChannels :: int

text \<open>
  The structs \<^verbatim>\<open>TEXTURE_INFO\<close> and \<^verbatim>\<open>OBJECT_MATERIAL\<close>. Both have a member
  \<^verbatim>\<open>tag\<close> in the source; the members of \<^verbatim>\<open>TEXTURE_INFO\<close> carry the prefix
  \<open>tex_\<close> here.
\<close>

record TEXTURE_INFO =
  tex_ID :: nat
  tex_tag :: string

record 'f OBJECT_MATERIAL =
  tag :: string
  ambientColor :: "'f vec3"
  ambientStrength :: 'f
  diffuseColor :: "'f vec3"
  specularColor :: "'f vec3"
  shininess :: 'f

text \<open>
  The members of \<^verbatim>\<open>SceneManager\<close> that the embedded functions use, and the graphics
  context they act on. \<^verbatim>\<open>m_pShaderManager\<close> is a pointer: \<open>None\<close> is \<^verbatim>\<open>NULL\<close>.
\<close>

record 'f SceneManager =
  m_pShaderManager :: "'f ShaderManager option"
  m_textureIDs :: "TEXTURE_INFO list"
  m_loadedTextures :: int
  m_objectMaterials :: "'f OBJECT_MATERIAL list"
  gl :: GLContext

text \<open>
  Modelled from the spec: the declaration of the array \<^verbatim>\<open>m_textureIDs\<close> is in
  \<^verbatim>\<open>SceneManager.h\<close>, outside \<^verbatim>\<open>SceneManager.cpp\<close>. The specification
  (section 3) and the comments of \<^verbatim>\<open>BindGLTextures\<close> and \<^verbatim>\<open>LoadSceneTextures\<close>
  give it 16 slots.
\<close>

definition MAX_TEXTURES :: nat where
  "MAX_TEXTURES = 16"

text \<open>
  Reading element \<open>i\<close> of the C array. Inside the array it is the element, outside it is
  undefined behaviour.
\<close>

definition tex_at :: "TEXTURE_INFO list \<Rightarrow> int \<Rightarrow> fault + TEXTURE_INFO" where
  "tex_at arr i =
     (if 0 \<le> i \<and> i < int (length arr) then Inr (arr ! nat i)
      else Inl (ArrayIndexOutOfBounds i))"

section \<open>The texture registry\<close>

text \<open>
  \<^verbatim>\<open>CreateGLTexture\<close>, lines 60 to 124. The result is the returned \<^verbatim>\<open>bool\<close> and the
  new state. \<open>uploaded\<close> is the three-way branch on \<^verbatim>\<open>colorChannels\<close> (lines 94 to
  103): the context after \<^verbatim>\<open>glTexImage2D\<close>, or \<open>None\<close> on the \<^verbatim>\<open>else\<close> branch, where
  the function returns \<^verbatim>\<open>false\<close> with the texture name generated and still bound.
  The flag set by \<^verbatim>\<open>stbi_set_flip_vertically_on_load\<close> belongs to the decoder.
\<close>

definition CreateGLTexture ::
  "(string \<Rightarrow> image option) \<Rightarrow> string \<Rightarrow> string \<Rightarrow> 'f SceneManager
     \<Rightarrow> fault + (bool \<times> 'f SceneManager)" where
  "CreateGLTexture stbi_load filename tag' s =
     (case stbi_load filename of
        None \<Rightarrow> Inr (False, s)
      | Some img \<Rightarrow>
          (let (textureID, g1) = glGenTextures (gl s);
               g2 = glBindTexture textureID g1;
               uploaded =
                 (if colorChannels img = 3
                  then Some (glTexImage2D GL_RGB8 (width img) (height img) g2)
                  else if colorChannels img = 4
                  then Some (glTexImage2D GL_RGBA8 (width img) (height img) g2)
                  else None)
           in case uploaded of
                None \<Rightarrow> Inr (False, s\<lparr>gl := g2\<rparr>)
              | Some g3 \<Rightarrow>
                  (let g4 = glBindTexture 0 g3;
                       n = m_loadedTextures s
                   in if 0 \<le> n \<and> n < int (length (m_textureIDs s))
                      then Inr (True,
                        s\<lparr>gl := g4,
                          m_textureIDs := (m_textureIDs s)
                            [nat n := (m_textureIDs s ! nat n)\<lparr>tex_ID := textureID, tex_tag := tag'\<rparr>],
                          m_loadedTextures := n + 1\<rparr>)
                      else Inl (ArrayIndexOutOfBounds n))))"

text \<open>\<^verbatim>\<open>BindGLTextures\<close>, lines 132 to 140: the \<^verbatim>\<open>for\<close> loop over \<open>i\<close>.\<close>

function BindGLTextures_loop ::
  "TEXTURE_INFO list \<Rightarrow> int \<Rightarrow> int \<Rightarrow> GLContext \<Rightarrow> fault + GLContext" where
  "BindGLTextures_loop arr n i g =
     (if i < n then
        (case tex_at arr i of
           Inl e \<Rightarrow> Inl e
         | Inr entry \<Rightarrow>
             BindGLTextures_loop arr n (i + 1) (glBindTexture (tex_ID entry) (glActiveTexture i g)))
      else Inr g)"
  by pat_completeness auto
termination
  by (relation "measure (\<lambda>(arr, n, i, g). nat (n - i))") auto

definition BindGLTextures :: "'f SceneManager \<Rightarrow> fault + 'f SceneManager" where
  "BindGLTextures s =
     (case BindGLTextures_loop (m_textureIDs s) (m_loadedTextures s) 0 (gl s) of
        Inl e \<Rightarrow> Inl e
      | Inr g \<Rightarrow> Inr (s\<lparr>gl := g\<rparr>))"

text \<open>
  \<^verbatim>\<open>DestroyGLTextures\<close>, lines 148 to 154. The loop body is
  \<^verbatim>\<open>glGenTextures(1, &m_textureIDs[i].ID)\<close>: it generates a name and stores it in the
  entry. \<^verbatim>\<open>m_loadedTextures\<close> is not assigned.
\<close>

function DestroyGLTextures_loop ::
  "int \<Rightarrow> int \<Rightarrow> TEXTURE_INFO list \<Rightarrow> GLContext \<Rightarrow> fault + (TEXTURE_INFO list \<times> GLContext)" where
  "DestroyGLTextures_loop n i arr g =
     (if i < n then
        (if 0 \<le> i \<and> i < int (length arr) then
           (let (name, g') = glGenTextures g
            in DestroyGLTextures_loop n (i + 1) (arr[nat i := (arr ! nat i)\<lparr>tex_ID := name\<rparr>]) g')
         else Inl (ArrayIndexOutOfBounds i))
      else Inr (arr, g))"
  by pat_completeness auto
termination
  by (relation "measure (\<lambda>(n, i, arr, g). nat (n - i))") auto

definition DestroyGLTextures :: "'f SceneManager \<Rightarrow> fault + 'f SceneManager" where
  "DestroyGLTextures s =
     (case DestroyGLTextures_loop (m_loadedTextures s) 0 (m_textureIDs s) (gl s) of
        Inl e \<Rightarrow> Inl e
      | Inr (arr, g) \<Rightarrow> Inr (s\<lparr>m_textureIDs := arr, gl := g\<rparr>))"

text \<open>
  \<^verbatim>\<open>FindTextureSlot\<close>, lines 188 to 206: the \<^verbatim>\<open>while\<close> loop with its three locals
  \<^verbatim>\<open>index\<close>, \<^verbatim>\<open>bFound\<close> and \<^verbatim>\<open>textureSlot\<close>.
\<close>

function FindTextureSlot_loop ::
  "TEXTURE_INFO list \<Rightarrow> int \<Rightarrow> string \<Rightarrow> int \<Rightarrow> bool \<Rightarrow> int \<Rightarrow> fault + int" where
  "FindTextureSlot_loop arr n t index bFound textureSlot =
     (if index < n \<and> bFound = False then
        (case tex_at arr index of
           Inl e \<Rightarrow> Inl e
         | Inr entry \<Rightarrow>
             if tex_tag entry = t
             then FindTextureSlot_loop arr n t index True index
             else FindTextureSlot_loop arr n t (index + 1) bFound textureSlot)
      else Inr textureSlot)"
  by pat_completeness auto
termination
  by (relation "measure (\<lambda>(arr, n, t, index, bFound, textureSlot).
        2 * nat (n - index) + (if bFound then 0 else 1))") auto

definition FindTextureSlot :: "'f SceneManager \<Rightarrow> string \<Rightarrow> fault + int" where
  "FindTextureSlot s t = FindTextureSlot_loop (m_textureIDs s) (m_loadedTextures s) t 0 False (- 1)"

text \<open>
  \<^verbatim>\<open>LoadSceneTextures\<close>, lines 383 to 410. The six return values are assigned to
  \<^verbatim>\<open>bReturn\<close> and never read.
\<close>

definition LoadSceneTextures ::
  "(string \<Rightarrow> image option) \<Rightarrow> 'f SceneManager \<Rightarrow> fault + 'f SceneManager" where
  "LoadSceneTextures stbi_load s0 =
     (case CreateGLTexture stbi_load ''../../Utilities/textures/ceramic.jpg'' ''ceramic'' s0 of
        Inl e \<Rightarrow> Inl e
      | Inr (_, s1) \<Rightarrow>
     (case CreateGLTexture stbi_load ''../../Utilities/textures/porcelain.jpg'' ''porcelain'' s1 of
        Inl e \<Rightarrow> Inl e
      | Inr (_, s2) \<Rightarrow>
     (case CreateGLTexture stbi_load ''../../Utilities/textures/stainless.jpg'' ''metal'' s2 of
        Inl e \<Rightarrow> Inl e
      | Inr (_, s3) \<Rightarrow>
     (case CreateGLTexture stbi_load ''../../Utilities/textures/paper.jpg'' ''paper'' s3 of
        Inl e \<Rightarrow> Inl e
      | Inr (_, s4) \<Rightarrow>
     (case CreateGLTexture stbi_load ''../../Utilities/textures/plastic.jpg'' ''plastic'' s4 of
        Inl e \<Rightarrow> Inl e
      | Inr (_, s5) \<Rightarrow>
     (case CreateGLTexture stbi_load ''../../Utilities/textures/drywall.jpg'' ''drywall'' s5 of
        Inl e \<Rightarrow> Inl e
      | Inr (_, s6) \<Rightarrow> BindGLTextures s6))))))"

text \<open>
  A caller of the registry: any sequence of calls of \<^verbatim>\<open>CreateGLTexture\<close> and
  \<^verbatim>\<open>BindGLTextures\<close>. Running the sequence returns the tags of the calls of
  \<^verbatim>\<open>CreateGLTexture\<close> that returned \<^verbatim>\<open>true\<close>, in call order, and the final state;
  it stops at the first undefined behaviour.
\<close>

datatype registry_call = CallCreateGLTexture string string | CallBindGLTextures

fun run_calls ::
  "(string \<Rightarrow> image option) \<Rightarrow> registry_call list \<Rightarrow> 'f SceneManager
     \<Rightarrow> fault + (string list \<times> 'f SceneManager)" where
  "run_calls stbi_load [] s = Inr ([], s)"
| "run_calls stbi_load (CallCreateGLTexture filename t # cs) s =
     (case CreateGLTexture stbi_load filename t s of
        Inl e \<Rightarrow> Inl e
      | Inr (ok, s') \<Rightarrow>
          (case run_calls stbi_load cs s' of
             Inl e \<Rightarrow> Inl e
           | Inr (ts, s'') \<Rightarrow> Inr ((if ok then [t] else []) @ ts, s'')))"
| "run_calls stbi_load (CallBindGLTextures # cs) s =
     (case BindGLTextures s of
        Inl e \<Rightarrow> Inl e
      | Inr s' \<Rightarrow> run_calls stbi_load cs s')"

section \<open>The material registry\<close>

text \<open>
  \<^verbatim>\<open>FindMaterial\<close>, lines 214 to 242. The out-parameter \<^verbatim>\<open>material\<close> is passed in
  and returned. The loop copies five members of the matching entry (not the tag). After
  the loop the function returns the constant \<^verbatim>\<open>true\<close> (line 241); \<^verbatim>\<open>bFound\<close> is
  not read again.
\<close>

function FindMaterial_loop ::
  "'f OBJECT_MATERIAL list \<Rightarrow> string \<Rightarrow> nat \<Rightarrow> bool \<Rightarrow> 'f OBJECT_MATERIAL
     \<Rightarrow> bool \<times> 'f OBJECT_MATERIAL" where
  "FindMaterial_loop ms t index bFound material =
     (if index < length ms \<and> bFound = False then
        (if tag (ms ! index) = t
         then FindMaterial_loop ms t index True
                (material\<lparr>ambientColor := ambientColor (ms ! index),
                          ambientStrength := ambientStrength (ms ! index),
                          diffuseColor := diffuseColor (ms ! index),
                          specularColor := specularColor (ms ! index),
                          shininess := shininess (ms ! index)\<rparr>)
         else FindMaterial_loop ms t (index + 1) bFound material)
      else (bFound, material))"
  by pat_completeness auto
termination
  by (relation "measure (\<lambda>(ms, t, index, bFound, material).
        2 * (length ms - index) + (if bFound then 0 else 1))") auto

definition FindMaterial ::
  "'f SceneManager \<Rightarrow> string \<Rightarrow> 'f OBJECT_MATERIAL \<Rightarrow> bool \<times> 'f OBJECT_MATERIAL" where
  "FindMaterial s t material =
     (if length (m_objectMaterials s) = 0 then (False, material)
      else (let (bFound, material') = FindMaterial_loop (m_objectMaterials s) t 0 False material
            in (True, material')))"

text \<open>\<^verbatim>\<open>m_objectMaterials.push_back(m)\<close>, the only way a material is defined.\<close>

definition push_back :: "'f OBJECT_MATERIAL \<Rightarrow> 'f SceneManager \<Rightarrow> 'f SceneManager" where
  "push_back m s = s\<lparr>m_objectMaterials := m_objectMaterials s @ [m]\<rparr>"

text \<open>
  \<^verbatim>\<open>DefineObjectMaterials\<close>, lines 418 to 481. Each literal is the value of the
  \<^verbatim>\<open>float\<close> it initialises: \<^verbatim>\<open>.75\<close>, \<^verbatim>\<open>.25\<close> and \<^verbatim>\<open>16.0\<close> are floats, \<^verbatim>\<open>.1\<close>
  is rounded to the nearest one, \<open>13421773 / 2^27\<close>. The six entries differ in their
  tags only.
\<close>

definition object_material :: "string \<Rightarrow> real OBJECT_MATERIAL" where
  "object_material t =
     (let ambC = 13421773 / 134217728; ambS = 0.75; difC = 0.25; specC = 0.75; shin = 16.0
      in \<lparr>tag = t,
          ambientColor = (ambC, ambC, ambC),
          ambientStrength = ambS,
          diffuseColor = (difC, difC, difC),
          specularColor = (specC, specC, specC),
          shininess = shin\<rparr>)"

definition DefineObjectMaterials :: "real SceneManager \<Rightarrow> real SceneManager" where
  "DefineObjectMaterials s =
     push_back (object_material ''drywall'')
       (push_back (object_material ''plastic'')
         (push_back (object_material ''paper'')
           (push_back (object_material ''metal'')
             (push_back (object_material ''porcelain'')
               (push_back (object_material ''ceramic'') s)))))"

section \<open>The transform composer and the shader state binder\<close>

text \<open>
  The glm library is a parameter: the five operations that \<^verbatim>\<open>SetTransformations\<close>
  calls. \<open>glm_mul\<close> is \<^verbatim>\<open>operator*\<close> on \<^verbatim>\<open>glm::mat4\<close>.
\<close>

record 'f glm_ops =
  glm_radians :: "'f \<Rightarrow> 'f"
  glm_scale :: "'f vec3 \<Rightarrow> 'f mat4"
  glm_rotate :: "'f \<Rightarrow> 'f vec3 \<Rightarrow> 'f mat4"
  glm_translate :: "'f vec3 \<Rightarrow> 'f mat4"
  glm_mul :: "'f mat4 \<Rightarrow> 'f mat4 \<Rightarrow> 'f mat4"

text \<open>
  \<^verbatim>\<open>SetTransformations\<close>, lines 250 to 280. The product on line 274 associates to the
  left, as \<^verbatim>\<open>*\<close> does in C++.
\<close>

definition SetTransformations ::
  "'f glm_ops \<Rightarrow> 'f vec3 \<Rightarrow> 'f \<Rightarrow> 'f \<Rightarrow> 'f \<Rightarrow> 'f vec3 \<Rightarrow> ('f::{zero,one}) SceneManager
     \<Rightarrow> 'f SceneManager" where
  "SetTransformations glm scaleXYZ XrotationDegrees YrotationDegrees ZrotationDegrees positionXYZ s =
     (let scale = glm_scale glm scaleXYZ;
          rotationX = glm_rotate glm (glm_radians glm XrotationDegrees) (1, 0, 0);
          rotationY = glm_rotate glm (glm_radians glm YrotationDegrees) (0, 1, 0);
          rotationZ = glm_rotate glm (glm_radians glm ZrotationDegrees) (0, 0, 1);
          translation = glm_translate glm positionXYZ;
          modelView =
            glm_mul glm (glm_mul glm (glm_mul glm (glm_mul glm translation rotationX) rotationY)
              rotationZ) scale
      in case m_pShaderManager s of
           None \<Rightarrow> s
         | Some sh \<Rightarrow> s\<lparr>m_pShaderManager := Some (setMat4Value g_ModelName modelView sh)\<rparr>)"

text \<open>\<^verbatim>\<open>SetShaderColor\<close>, lines 288 to 307. \<^verbatim>\<open>false\<close> is passed as the int \<open>0\<close>.\<close>

definition SetShaderColor :: "'f \<Rightarrow> 'f \<Rightarrow> 'f \<Rightarrow> 'f \<Rightarrow> 'f SceneManager \<Rightarrow> 'f SceneManager" where
  "SetShaderColor redColorValue greenColorValue blueColorValue alphaValue s =
     (let currentColor = (redColorValue, greenColorValue, blueColorValue, alphaValue)
      in case m_pShaderManager s of
           None \<Rightarrow> s
         | Some sh \<Rightarrow>
             s\<lparr>m_pShaderManager :=
                 Some (setVec4Value g_ColorValueName currentColor (setIntValue g_UseTextureName 0 sh))\<rparr>)"

text \<open>
  \<^verbatim>\<open>SetShaderTexture\<close>, lines 315 to 326. \<^verbatim>\<open>true\<close> is passed as the int \<open>1\<close>; the
  flag is written before the slot is looked up.
\<close>

definition SetShaderTexture :: "string \<Rightarrow> 'f SceneManager \<Rightarrow> fault + 'f SceneManager" where
  "SetShaderTexture textureTag s =
     (case m_pShaderManager s of
        None \<Rightarrow> Inr s
      | Some sh \<Rightarrow>
          (let sh1 = setIntValue g_UseTextureName 1 sh
           in case FindTextureSlot s textureTag of
                Inl e \<Rightarrow> Inl e
              | Inr textureID \<Rightarrow>
                  Inr (s\<lparr>m_pShaderManager :=
                          Some (setSampler2DValue g_TextureValueName textureID sh1)\<rparr>)))"

text \<open>\<^verbatim>\<open>SetTextureUVScale\<close>, lines 334 to 340.\<close>

definition SetTextureUVScale :: "'f \<Rightarrow> 'f \<Rightarrow> 'f SceneManager \<Rightarrow> 'f SceneManager" where
  "SetTextureUVScale u v s =
     (case m_pShaderManager s of
        None \<Rightarrow> s
      | Some sh \<Rightarrow> s\<lparr>m_pShaderManager := Some (setVec2Value ''UVscale'' (u, v) sh)\<rparr>)"

text \<open>
  \<^verbatim>\<open>SetShaderMaterial\<close>, lines 348 to 366. The local \<^verbatim>\<open>OBJECT_MATERIAL material\<close>
  is declared without an initialiser: its contents before \<^verbatim>\<open>FindMaterial\<close> writes to
  it are the parameter \<open>uninitialised\<close>. The function does not test
  \<^verbatim>\<open>m_pShaderManager\<close> against \<^verbatim>\<open>NULL\<close> before it calls through it.
\<close>

definition SetShaderMaterial ::
  "'f OBJECT_MATERIAL \<Rightarrow> string \<Rightarrow> 'f SceneManager \<Rightarrow> fault + 'f SceneManager" where
  "SetShaderMaterial uninitialised materialTag s =
     (if length (m_objectMaterials s) > 0 then
        (let (bReturn, material) = FindMaterial s materialTag uninitialised
         in if bReturn = True then
              (case m_pShaderManager s of
                 None \<Rightarrow> Inl NullPointerDereference
               | Some sh \<Rightarrow>
                   Inr (s\<lparr>m_pShaderManager := Some
                     (setFloatValue ''material.shininess'' (shininess material)
                       (setVec3Value ''material.specularColor'' (specularColor material)
                         (setVec3Value ''material.diffuseColor'' (diffuseColor material)
                           (setFloatValue ''material.ambientStrength'' (ambientStrength material)
                             (setVec3Value ''material.ambientColor'' (ambientColor material)
                               sh)))))\<rparr>))
            else Inr s)
      else Inr s)"

section \<open>States and instances used to exercise the functions\<close>

text \<open>A registry that holds no texture yet: the array has its 16 slots, none is in use.\<close>

definition empty_registry :: "'f SceneManager \<Rightarrow> bool" where
  "empty_registry s \<longleftrightarrow> m_loadedTextures s = 0 \<and> length (m_textureIDs s) = MAX_TEXTURES"

text \<open>A graphics context just created: no texture name in use, unit 0 active.\<close>

definition new_GLContext :: GLContext where
  "new_GLContext =
     \<lparr>gl_next_name = 1, gl_textures = [], gl_active_unit = 0,
      gl_binding_2d = (\<lambda>_. 0), gl_images = []\<rparr>"

text \<open>
  Modelled from the spec: the constructor (lines 34 to 38) assigns \<^verbatim>\<open>m_pShaderManager\<close>
  and the mesh object only; the initial values of the other members come from
  \<^verbatim>\<open>SceneManager.h\<close>, outside \<^verbatim>\<open>SceneManager.cpp\<close>. Following section 3 of
  the specification (texture entries are created during scene load, materials during
  scene setup) both registries start empty.
\<close>

definition new_SceneManager :: "'f ShaderManager option \<Rightarrow> 'f SceneManager" where
  "new_SceneManager pShaderManager =
     \<lparr>m_pShaderManager = pShaderManager,
      m_textureIDs = replicate MAX_TEXTURES \<lparr>tex_ID = 0, tex_tag = []\<rparr>,
      m_loadedTextures = 0,
      m_objectMaterials = [],
      gl = new_GLContext\<rparr>"

text \<open>A decoder under which every file is an image of the given channel count.\<close>

definition decode_all :: "int \<Rightarrow> string \<Rightarrow> image option" where
  "decode_all channels filename = Some \<lparr>width = 64, height = 64, colorChannels = channels\<rparr>"

text \<open>
  An instance of the glm operations over the real numbers, following the library's
  definitions of \<^verbatim>\<open>radians\<close>, \<^verbatim>\<open>scale\<close>, \<^verbatim>\<open>rotate\<close> (axis and angle),
  \<^verbatim>\<open>translate\<close> and the matrix product, with exact arithmetic in place of floating
  point.
\<close>

definition mat4_apply :: "real mat4 \<Rightarrow> real vec4 \<Rightarrow> real vec4" where
  "mat4_apply m v =
     (case m of ((a0, a1, a2, a3), (b0, b1, b2, b3), (c0, c1, c2, c3), (d0, d1, d2, d3)) \<Rightarrow>
      case v of (x, y, z, w) \<Rightarrow>
        (a0 * x + b0 * y + c0 * z + d0 * w,
         a1 * x + b1 * y + c1 * z + d1 * w,
         a2 * x + b2 * y + c2 * z + d2 * w,
         a3 * x + b3 * y + c3 * z + d3 * w))"

definition mat4_mul :: "real mat4 \<Rightarrow> real mat4 \<Rightarrow> real mat4" where
  "mat4_mul m1 m2 =
     (case m2 of (c0, c1, c2, c3) \<Rightarrow>
        (mat4_apply m1 c0, mat4_apply m1 c1, mat4_apply m1 c2, mat4_apply m1 c3))"

definition real_scale :: "real vec3 \<Rightarrow> real mat4" where
  "real_scale v =
     (case v of (x, y, z) \<Rightarrow> ((x, 0, 0, 0), (0, y, 0, 0), (0, 0, z, 0), (0, 0, 0, 1)))"

definition real_translate :: "real vec3 \<Rightarrow> real mat4" where
  "real_translate v =
     (case v of (x, y, z) \<Rightarrow> ((1, 0, 0, 0), (0, 1, 0, 0), (0, 0, 1, 0), (x, y, z, 1)))"

definition real_rotate :: "real \<Rightarrow> real vec3 \<Rightarrow> real mat4" where
  "real_rotate angle v =
     (case v of (x, y, z) \<Rightarrow>
        (let c = cos angle; s = sin angle;
             len = sqrt (x * x + y * y + z * z);
             ax = x / len; ay = y / len; az = z / len;
             tx = (1 - c) * ax; ty = (1 - c) * ay; tz = (1 - c) * az
         in ((c + tx * ax, tx * ay + s * az, tx * az - s * ay, 0),
             (ty * ax - s * az, c + ty * ay, ty * az + s * ax, 0),
             (tz * ax + s * ay, tz * ay - s * ax, c + tz * az, 0),
             (0, 0, 0, 1))))"

definition glm_real :: "real glm_ops" where
  "glm_real =
     \<lparr>glm_radians = (\<lambda>degrees. degrees * pi / 180),
      glm_scale = real_scale,
      glm_rotate = real_rotate,
      glm_translate = real_translate,
      glm_mul = mat4_mul\<rparr>"

text \<open>
  A decoder with three image files: a 3-channel, a 4-channel and a 1-channel image. Any
  other file cannot be read.
\<close>

definition decode_sample :: "string \<Rightarrow> image option" where
  "decode_sample filename =
     (if filename = ''a.jpg'' then Some \<lparr>width = 64, height = 64, colorChannels = 3\<rparr>
      else if filename = ''b.png'' then Some \<lparr>width = 64, height = 64, colorChannels = 4\<rparr>
      else if filename = ''grey.png'' then Some \<lparr>width = 64, height = 64, colorChannels = 1\<rparr>
      else None)"

text \<open>
  Concrete runs: two textures with the tags \<open>A\<close> and \<open>B\<close>; one texture that is
  registered and then destroyed; seventeen tags for seventeen textures.
\<close>

definition sample_calls :: "registry_call list" where
  "sample_calls =
     [CallCreateGLTexture ''a.jpg'' ''A'', CallCreateGLTexture ''b.png'' ''B'', CallBindGLTextures]"

definition destroy_run :: "fault + real SceneManager" where
  "destroy_run =
     (case CreateGLTexture decode_sample ''a.jpg'' ''A'' (new_SceneManager None) of
        Inl e \<Rightarrow> Inl e
      | Inr (ok, s) \<Rightarrow> DestroyGLTextures s)"

definition seventeen_tags :: "string list" where
  "seventeen_tags =
     [''t01'', ''t02'', ''t03'', ''t04'', ''t05'', ''t06'', ''t07'', ''t08'', ''t09'',
      ''t10'', ''t11'', ''t12'', ''t13'', ''t14'', ''t15'', ''t16'', ''t17'']"

section \<open>Notions used to state the properties\<close>

text \<open>
  The tags of the entries in use, in array order: the first \<^verbatim>\<open>m_loadedTextures\<close>
  elements of \<^verbatim>\<open>m_textureIDs\<close>.
\<close>

definition registry_tags :: "'f SceneManager \<Rightarrow> string list" where
  "registry_tags s = map tex_tag (take (nat (m_loadedTextures s)) (m_textureIDs s))"

text \<open>The counter stays within the array.\<close>

definition registry_ok :: "'f SceneManager \<Rightarrow> bool" where
  "registry_ok s \<longleftrightarrow>
     length (m_textureIDs s) = MAX_TEXTURES \<and>
     0 \<le> m_loadedTextures s \<and> m_loadedTextures s \<le> int MAX_TEXTURES"


text \<open>Contents of an uninitialised \<^verbatim>\<open>OBJECT_MATERIAL\<close>, for concrete runs.\<close>

definition stack_garbage :: "real OBJECT_MATERIAL" where
  "stack_garbage =
     \<lparr>tag = ''?'', ambientColor = (7, 7, 7), ambientStrength = 7,
      diffuseColor = (7, 7, 7), specularColor = (7, 7, 7), shininess = 7\<rparr>"

section \<open>Facts about the loops\<close>

text \<open>
  The loop equations are unconditional equations of a function in terms of itself; they
  are unfolded one step at a time.
\<close>

declare BindGLTextures_loop.simps [simp del]
declare DestroyGLTextures_loop.simps [simp del]
declare FindTextureSlot_loop.simps [simp del]
declare FindMaterial_loop.simps [simp del]

subsection \<open>The lookup loop of the texture registry\<close>

lemma FindTextureSlot_loop_found:
  "FindTextureSlot_loop arr n t index True slot = Inr slot"
  by (subst FindTextureSlot_loop.simps) simp

lemma FindTextureSlot_loop_miss:
  "0 \<le> index \<Longrightarrow> n \<le> int (length arr) \<Longrightarrow>
   \<forall>j. index \<le> j \<and> j < n \<longrightarrow> tex_tag (arr ! nat j) \<noteq> t \<Longrightarrow>
   FindTextureSlot_loop arr n t index False slot = Inr slot"
proof (induction "nat (n - index)" arbitrary: index)
  case 0
  then show ?case by (subst FindTextureSlot_loop.simps) simp
next
  case (Suc d)
  from Suc.hyps(2) have lt: "index < n" by linarith
  with Suc.prems have ne: "tex_tag (arr ! nat index) \<noteq> t" by simp
  have d: "d = nat (n - (index + 1))" using Suc.hyps(2) by linarith
  have step: "FindTextureSlot_loop arr n t (index + 1) False slot = Inr slot"
    using Suc.hyps(1)[OF d] Suc.prems by simp
  show ?case
    using lt ne Suc.prems(1,2) step
    by (subst FindTextureSlot_loop.simps) (simp add: tex_at_def)
qed

lemma FindTextureSlot_loop_hit:
  "0 \<le> index \<Longrightarrow> index \<le> k \<Longrightarrow> k < n \<Longrightarrow> n \<le> int (length arr) \<Longrightarrow>
   tex_tag (arr ! nat k) = t \<Longrightarrow>
   \<forall>j. index \<le> j \<and> j < k \<longrightarrow> tex_tag (arr ! nat j) \<noteq> t \<Longrightarrow>
   FindTextureSlot_loop arr n t index False slot = Inr k"
proof (induction "nat (k - index)" arbitrary: index)
  case 0
  then have eq: "index = k" by simp
  show ?case
    using 0 eq
    by (subst FindTextureSlot_loop.simps) (simp add: tex_at_def FindTextureSlot_loop_found)
next
  case (Suc d)
  from Suc.hyps(2) have lt: "index < k" by linarith
  with Suc.prems have ne: "tex_tag (arr ! nat index) \<noteq> t" by simp
  have d: "d = nat (k - (index + 1))" using Suc.hyps(2) by linarith
  have step: "FindTextureSlot_loop arr n t (index + 1) False slot = Inr k"
    using Suc.hyps(1)[OF d] Suc.prems lt by simp
  show ?case
    using lt ne Suc.prems step
    by (subst FindTextureSlot_loop.simps) (simp add: tex_at_def)
qed

lemma registry_ok_nat:
  "registry_ok s \<Longrightarrow> nat (m_loadedTextures s) \<le> length (m_textureIDs s)"
  by (simp add: registry_ok_def nat_le_iff)

lemma length_registry_tags:
  "registry_ok s \<Longrightarrow> length (registry_tags s) = nat (m_loadedTextures s)"
  using registry_ok_nat[of s] by (simp add: registry_tags_def)

lemma nth_registry_tags:
  "registry_ok s \<Longrightarrow> j < nat (m_loadedTextures s) \<Longrightarrow>
   registry_tags s ! j = tex_tag (m_textureIDs s ! j)"
  using registry_ok_nat[of s] by (simp add: registry_tags_def)

lemma take_Suc_update:
  "n < length arr \<Longrightarrow> take (Suc n) (arr[n := e]) = take n arr @ [e]"
  by (simp add: take_Suc_conv_app_nth)

lemma FindTextureSlot_miss:
  assumes ok: "registry_ok s" and miss: "t \<notin> set (registry_tags s)"
  shows "FindTextureSlot s t = Inr (- 1)"
proof -
  have "\<forall>j. 0 \<le> j \<and> j < m_loadedTextures s \<longrightarrow> tex_tag (m_textureIDs s ! nat j) \<noteq> t"
  proof (intro allI impI)
    fix j :: int assume j: "0 \<le> j \<and> j < m_loadedTextures s"
    then have lt: "nat j < nat (m_loadedTextures s)" by linarith
    then have "registry_tags s ! nat j \<in> set (registry_tags s)"
      using ok by (simp add: length_registry_tags)
    with miss have "registry_tags s ! nat j \<noteq> t" by auto
    then show "tex_tag (m_textureIDs s ! nat j) \<noteq> t"
      using nth_registry_tags[OF ok lt] by simp
  qed
  moreover have "m_loadedTextures s \<le> int (length (m_textureIDs s))"
    using ok by (simp add: registry_ok_def)
  ultimately show ?thesis
    unfolding FindTextureSlot_def by (intro FindTextureSlot_loop_miss) simp_all
qed

lemma FindTextureSlot_hit:
  assumes ok: "registry_ok s" and k: "k < length (registry_tags s)"
    and at: "registry_tags s ! k = t" and first: "\<forall>j<k. registry_tags s ! j \<noteq> t"
  shows "FindTextureSlot s t = Inr (int k)"
proof -
  have kn: "k < nat (m_loadedTextures s)" using k ok by (simp add: length_registry_tags)
  have "\<forall>j. 0 \<le> j \<and> j < int k \<longrightarrow> tex_tag (m_textureIDs s ! nat j) \<noteq> t"
  proof (intro allI impI)
    fix j :: int assume j: "0 \<le> j \<and> j < int k"
    then have lt: "nat j < k" by linarith
    with first have "registry_tags s ! nat j \<noteq> t" by simp
    moreover have "nat j < nat (m_loadedTextures s)" using lt kn by linarith
    ultimately show "tex_tag (m_textureIDs s ! nat j) \<noteq> t"
      using nth_registry_tags[OF ok] by simp
  qed
  moreover have "tex_tag (m_textureIDs s ! nat (int k)) = t"
    using at nth_registry_tags[OF ok kn] by simp
  moreover have "m_loadedTextures s \<le> int (length (m_textureIDs s))"
    using ok by (simp add: registry_ok_def)
  moreover have "int k < m_loadedTextures s" using kn by linarith
  ultimately show ?thesis
    unfolding FindTextureSlot_def by (intro FindTextureSlot_loop_hit) simp_all
qed

lemma first_occurrence:
  "t \<in> set xs \<Longrightarrow> \<exists>k<length xs. xs ! k = t \<and> (\<forall>j<k. xs ! j \<noteq> t)"
proof (induction xs)
  case Nil
  then show ?case by simp
next
  case (Cons x xs)
  show ?case
  proof (cases "x = t")
    case True
    then show ?thesis by (intro exI[of _ 0]) simp
  next
    case False
    with Cons obtain k where k: "k < length xs" "xs ! k = t" "\<forall>j<k. xs ! j \<noteq> t" by auto
    show ?thesis
    proof (intro exI[of _ "Suc k"] conjI allI impI)
      fix j assume "j < Suc k"
      then show "(x # xs) ! j \<noteq> t" using False k(3) by (cases j) auto
    qed (use k in auto)
  qed
qed

lemma CreateGLTexture_registry:
  assumes ok: "registry_ok s" and res: "CreateGLTexture ld f t s = Inr (b, s')"
  shows "registry_ok s' \<and> registry_tags s' = registry_tags s @ (if b then [t] else [])
         \<and> m_pShaderManager s' = m_pShaderManager s
         \<and> m_objectMaterials s' = m_objectMaterials s"
proof (cases "ld f")
  case None
  with res ok show ?thesis by (simp add: CreateGLTexture_def)
next
  case (Some img)
  show ?thesis
  proof (cases "colorChannels img \<noteq> 3 \<and> colorChannels img \<noteq> 4")
    case True
    with res Some ok show ?thesis
      by (auto simp add: CreateGLTexture_def Let_def registry_ok_def registry_tags_def
            split: prod.splits)
  next
    case False
    let ?n = "m_loadedTextures s"
    from res Some False have room: "0 \<le> ?n \<and> ?n < int (length (m_textureIDs s))"
      by (auto simp add: CreateGLTexture_def Let_def split: prod.splits if_splits)
    then have nlt: "nat ?n < length (m_textureIDs s)" by linarith
    have suc: "nat (?n + 1) = Suc (nat ?n)" using room by linarith
    from res Some False room have b: "b = True"
      and arr: "m_textureIDs s' = (m_textureIDs s)
                  [nat ?n := (m_textureIDs s ! nat ?n)\<lparr>tex_ID := fst (glGenTextures (gl s)), tex_tag := t\<rparr>]"
      and cnt: "m_loadedTextures s' = ?n + 1"
      and sh: "m_pShaderManager s' = m_pShaderManager s"
      and mats: "m_objectMaterials s' = m_objectMaterials s"
      by (auto simp add: CreateGLTexture_def Let_def split: prod.splits if_splits)
    have "registry_ok s'"
      using ok room by (simp add: registry_ok_def arr cnt)
    moreover have "registry_tags s' = registry_tags s @ [t]"
      using nlt by (simp add: registry_tags_def arr cnt suc take_Suc_update)
    ultimately show ?thesis using b sh mats by simp
  qed
qed

lemma BindGLTextures_registry:
  "BindGLTextures s = Inr s' \<Longrightarrow>
   m_textureIDs s' = m_textureIDs s \<and> m_loadedTextures s' = m_loadedTextures s
   \<and> m_pShaderManager s' = m_pShaderManager s \<and> m_objectMaterials s' = m_objectMaterials s"
  by (auto simp add: BindGLTextures_def split: sum.splits)

lemma run_calls_registry:
  "registry_ok s \<Longrightarrow> run_calls ld cs s = Inr (ts, s') \<Longrightarrow>
   registry_ok s' \<and> registry_tags s' = registry_tags s @ ts"
proof (induction cs arbitrary: s ts)
  case Nil
  then show ?case by simp
next
  case (Cons c cs)
  show ?case
  proof (cases c)
    case (CallCreateGLTexture f t)
    with Cons.prems obtain b s1 ts1 where
      c1: "CreateGLTexture ld f t s = Inr (b, s1)" and
      r1: "run_calls ld cs s1 = Inr (ts1, s')" and
      ts: "ts = (if b then [t] else []) @ ts1"
      by (auto split: sum.splits prod.splits)
    from CreateGLTexture_registry[OF Cons.prems(1) c1]
    have ok1: "registry_ok s1" and t1: "registry_tags s1 = registry_tags s @ (if b then [t] else [])"
      by simp_all
    from Cons.IH[OF ok1 r1] show ?thesis using t1 ts by simp
  next
    case CallBindGLTextures
    with Cons.prems obtain s1 where
      b1: "BindGLTextures s = Inr s1" and r1: "run_calls ld cs s1 = Inr (ts, s')"
      by (auto split: sum.splits)
    from BindGLTextures_registry[OF b1] Cons.prems(1)
    have ok1: "registry_ok s1" and t1: "registry_tags s1 = registry_tags s"
      by (simp_all add: registry_ok_def registry_tags_def)
    from Cons.IH[OF ok1 r1] show ?thesis using t1 by simp
  qed
qed

lemma empty_registry_ok:
  "empty_registry s \<Longrightarrow> registry_ok s \<and> registry_tags s = []"
  by (simp add: empty_registry_def registry_ok_def registry_tags_def)

subsection \<open>The lookup loop of the material registry\<close>


lemma FindMaterial_loop_miss:
  "\<forall>j. index \<le> j \<and> j < length ms \<longrightarrow> tag (ms ! j) \<noteq> t \<Longrightarrow>
   FindMaterial_loop ms t index False material = (False, material)"
proof (induction "length ms - index" arbitrary: index)
  case 0
  then show ?case by (subst FindMaterial_loop.simps) simp
next
  case (Suc d)
  from Suc.hyps(2) have lt: "index < length ms" by linarith
  with Suc.prems have ne: "tag (ms ! index) \<noteq> t" by simp
  have d: "d = length ms - (index + 1)" using Suc.hyps(2) by linarith
  have step: "FindMaterial_loop ms t (index + 1) False material = (False, material)"
    using Suc.hyps(1)[OF d] Suc.prems by simp
  show ?case
    using lt ne step by (subst FindMaterial_loop.simps) simp
qed


lemma FindMaterial_nonempty_miss:
  "m_objectMaterials s \<noteq> [] \<Longrightarrow> \<forall>j<length (m_objectMaterials s). tag (m_objectMaterials s ! j) \<noteq> t \<Longrightarrow>
   FindMaterial s t material = (True, material)"
  by (simp add: FindMaterial_def FindMaterial_loop_miss)


lemma materials_DefineObjectMaterials:
  "m_objectMaterials (DefineObjectMaterials s) =
     m_objectMaterials s @ map object_material
       [''ceramic'', ''porcelain'', ''metal'', ''paper'', ''plastic'', ''drywall'']"
  by (simp add: DefineObjectMaterials_def push_back_def)

lemma tag_object_material [simp]: "tag (object_material t) = t"
  by (simp add: object_material_def Let_def)

subsection \<open>Lookups that hit, miss and always return\<close>

lemma FindMaterial_six_materials_miss:
  assumes "t \<notin> {''ceramic'', ''porcelain'', ''metal'', ''paper'', ''plastic'', ''drywall''}"
  shows "FindMaterial (DefineObjectMaterials (new_SceneManager p)) t material = (True, material)"
proof -
  let ?s = "DefineObjectMaterials (new_SceneManager p)"
  have ms: "m_objectMaterials ?s = map object_material
       [''ceramic'', ''porcelain'', ''metal'', ''paper'', ''plastic'', ''drywall'']"
    by (simp add: materials_DefineObjectMaterials new_SceneManager_def)
  have "\<forall>m\<in>set (m_objectMaterials ?s). tag m \<noteq> t"
    unfolding ms using assms by auto
  then have "\<forall>j<length (m_objectMaterials ?s). tag (m_objectMaterials ?s ! j) \<noteq> t"
    by (simp add: all_set_conv_all_nth)
  moreover have "m_objectMaterials ?s \<noteq> []" unfolding ms by simp
  ultimately show ?thesis by (rule FindMaterial_nonempty_miss[rotated])
qed

lemma FindTextureSlot_total:
  assumes ok: "registry_ok s"
  shows "\<exists>slot. FindTextureSlot s t = Inr slot \<and> - 1 \<le> slot \<and> slot < m_loadedTextures s
          \<and> (t \<notin> set (registry_tags s) \<longrightarrow> slot = - 1)
          \<and> (t \<in> set (registry_tags s) \<longrightarrow> 0 \<le> slot \<and> registry_tags s ! nat slot = t)"
proof (cases "t \<in> set (registry_tags s)")
  case False
  have "0 \<le> m_loadedTextures s" using ok by (simp add: registry_ok_def)
  then have "(- 1 :: int) < m_loadedTextures s" by linarith
  with FindTextureSlot_miss[OF ok False] False show ?thesis
    by (intro exI[of _ "- 1"]) simp
next
  case True
  from first_occurrence[OF True]
  obtain k where k: "k < length (registry_tags s)" "registry_tags s ! k = t"
      "\<forall>j<k. registry_tags s ! j \<noteq> t"
    by (elim exE conjE)
  have len: "length (registry_tags s) = nat (m_loadedTextures s)"
    using ok by (rule length_registry_tags)
  have lt: "int k < m_loadedTextures s"
    using k(1) unfolding len by linarith
  have at: "registry_tags s ! nat (int k) = t" using k(2) by simp
  from FindTextureSlot_hit[OF ok k] lt at True show ?thesis
    by (intro exI[of _ "int k"]) simp
qed

subsection \<open>Binding, registering and running sequences of calls\<close>

lemma BindGLTextures_loop_binds:
  "0 \<le> i \<Longrightarrow> n \<le> int (length arr) \<Longrightarrow>
   \<exists>g'. BindGLTextures_loop arr n i g = Inr g' \<and>
        (\<forall>j. i \<le> j \<and> j < n \<longrightarrow> gl_binding_2d g' j = tex_ID (arr ! nat j)) \<and>
        (\<forall>j. \<not> (i \<le> j \<and> j < n) \<longrightarrow> gl_binding_2d g' j = gl_binding_2d g j) \<and>
        gl_textures g' = gl_textures g"
proof (induction "nat (n - i)" arbitrary: i g)
  case 0
  then show ?case by (subst BindGLTextures_loop.simps) simp
next
  case (Suc d)
  from Suc.hyps(2) have lt: "i < n" by linarith
  let ?g1 = "glBindTexture (tex_ID (arr ! nat i)) (glActiveTexture i g)"
  have d: "d = nat (n - (i + 1))" using Suc.hyps(2) by linarith
  have i1: "0 \<le> i + 1" using Suc.prems(1) by simp
  from Suc.hyps(1)[OF d i1 Suc.prems(2), of ?g1] obtain g' where
    run: "BindGLTextures_loop arr n (i + 1) ?g1 = Inr g'" and
    inside: "\<forall>j. i + 1 \<le> j \<and> j < n \<longrightarrow> gl_binding_2d g' j = tex_ID (arr ! nat j)" and
    outside: "\<forall>j. \<not> (i + 1 \<le> j \<and> j < n) \<longrightarrow> gl_binding_2d g' j = gl_binding_2d ?g1 j" and
    names: "gl_textures g' = gl_textures ?g1"
    by blast
  have unfold: "BindGLTextures_loop arr n i g = Inr g'"
    using lt Suc.prems run by (subst BindGLTextures_loop.simps) (simp add: tex_at_def)
  have at_i: "gl_binding_2d ?g1 i = tex_ID (arr ! nat i)"
    by (simp add: glBindTexture_def glActiveTexture_def)
  have off_i: "\<And>j. j \<noteq> i \<Longrightarrow> gl_binding_2d ?g1 j = gl_binding_2d g j"
    by (simp add: glBindTexture_def glActiveTexture_def)
  have in': "\<forall>j. i \<le> j \<and> j < n \<longrightarrow> gl_binding_2d g' j = tex_ID (arr ! nat j)"
  proof (intro allI impI)
    fix j assume j: "i \<le> j \<and> j < n"
    show "gl_binding_2d g' j = tex_ID (arr ! nat j)"
    proof (cases "j = i")
      case True
      then have "\<not> (i + 1 \<le> j \<and> j < n)" by simp
      with outside have "gl_binding_2d g' j = gl_binding_2d ?g1 j" by blast
      with True at_i show ?thesis by simp
    next
      case False
      with j have "i + 1 \<le> j \<and> j < n" by linarith
      with inside show ?thesis by blast
    qed
  qed
  have out': "\<forall>j. \<not> (i \<le> j \<and> j < n) \<longrightarrow> gl_binding_2d g' j = gl_binding_2d g j"
  proof (intro allI impI)
    fix j assume j: "\<not> (i \<le> j \<and> j < n)"
    then have "\<not> (i + 1 \<le> j \<and> j < n)" by linarith
    with outside have "gl_binding_2d g' j = gl_binding_2d ?g1 j" by blast
    moreover have "j \<noteq> i" using j lt by auto
    ultimately show "gl_binding_2d g' j = gl_binding_2d g j" using off_i by simp
  qed
  have names': "gl_textures g' = gl_textures g"
    using names by (simp add: glBindTexture_def glActiveTexture_def)
  from unfold in' out' names' show ?case by blast
qed

lemma BindGLTextures_binds:
  assumes ok: "registry_ok s"
  shows "\<exists>s'. BindGLTextures s = Inr s' \<and>
           (\<forall>j. 0 \<le> j \<and> j < m_loadedTextures s \<longrightarrow>
                 gl_binding_2d (gl s') j = tex_ID (m_textureIDs s ! nat j)) \<and>
           (\<forall>j. \<not> (0 \<le> j \<and> j < m_loadedTextures s) \<longrightarrow>
                 gl_binding_2d (gl s') j = gl_binding_2d (gl s) j)"
proof -
  have n: "m_loadedTextures s \<le> int (length (m_textureIDs s))"
    using ok by (simp add: registry_ok_def)
  from BindGLTextures_loop_binds[OF _ n, of 0 "gl s"] obtain g' where
    g': "BindGLTextures_loop (m_textureIDs s) (m_loadedTextures s) 0 (gl s) = Inr g'"
      "\<forall>j. 0 \<le> j \<and> j < m_loadedTextures s \<longrightarrow> gl_binding_2d g' j = tex_ID (m_textureIDs s ! nat j)"
      "\<forall>j. \<not> (0 \<le> j \<and> j < m_loadedTextures s) \<longrightarrow> gl_binding_2d g' j = gl_binding_2d (gl s) j"
    by auto
  show ?thesis
    by (intro exI[of _ "s\<lparr>gl := g'\<rparr>"]) (simp add: BindGLTextures_def g')
qed

lemma CreateGLTexture_room:
  assumes ok: "registry_ok s" and room: "m_loadedTextures s < int MAX_TEXTURES"
    and img: "ld f = Some img" and ch: "colorChannels img = 3 \<or> colorChannels img = 4"
  shows "\<exists>s'. CreateGLTexture ld f t s = Inr (True, s')"
  using assms
  by (auto simp add: CreateGLTexture_def Let_def registry_ok_def split: prod.splits)

lemma CreateGLTexture_full:
  assumes ok: "registry_ok s" and full: "m_loadedTextures s = int MAX_TEXTURES"
    and img: "ld f = Some img" and ch: "colorChannels img = 3 \<or> colorChannels img = 4"
  shows "CreateGLTexture ld f t s = Inl (ArrayIndexOutOfBounds 16)"
  using assms
  by (auto simp add: CreateGLTexture_def Let_def registry_ok_def MAX_TEXTURES_def split: prod.splits)

lemma registry_count:
  "registry_ok s \<Longrightarrow> m_loadedTextures s = int (length (registry_tags s))"
  using length_registry_tags[of s] by (simp add: registry_ok_def)

lemma sample_run:
  "\<exists>s. run_calls decode_sample sample_calls (new_SceneManager p) = Inr ([''A'', ''B''], s)
       \<and> m_pShaderManager s = p"
proof -
  let ?s0 = "new_SceneManager p"
  have ok0: "registry_ok ?s0" and cnt0: "m_loadedTextures ?s0 = 0"
    by (simp_all add: registry_ok_def new_SceneManager_def)
  from CreateGLTexture_room[OF ok0, of decode_sample "''a.jpg''" _ "''A''"]
  obtain s1 where c1: "CreateGLTexture decode_sample ''a.jpg'' ''A'' ?s0 = Inr (True, s1)"
    by (auto simp add: cnt0 decode_sample_def MAX_TEXTURES_def)
  from CreateGLTexture_registry[OF ok0 c1]
  have ok1: "registry_ok s1" and t1: "registry_tags s1 = registry_tags ?s0 @ [''A'']"
    and p1: "m_pShaderManager s1 = p"
    by (simp_all add: new_SceneManager_def)
  have "registry_tags ?s0 = []" by (simp add: registry_tags_def new_SceneManager_def)
  with t1 have cnt1: "m_loadedTextures s1 = 1"
    using registry_count[OF ok1] by simp
  from CreateGLTexture_room[OF ok1, of decode_sample "''b.png''" _ "''B''"]
  obtain s2 where c2: "CreateGLTexture decode_sample ''b.png'' ''B'' s1 = Inr (True, s2)"
    by (auto simp add: cnt1 decode_sample_def MAX_TEXTURES_def)
  from CreateGLTexture_registry[OF ok1 c2]
  have ok2: "registry_ok s2" and p2: "m_pShaderManager s2 = p" using p1 by simp_all
  from BindGLTextures_binds[OF ok2] obtain s3 where b3: "BindGLTextures s2 = Inr s3" by blast
  have p3: "m_pShaderManager s3 = p" using BindGLTextures_registry[OF b3] p2 by simp
  show ?thesis
    by (intro exI[of _ s3]) (simp add: sample_calls_def c1 c2 b3 p3)
qed

lemma run_calls_append:
  "run_calls ld (cs1 @ cs2) s =
     (case run_calls ld cs1 s of
        Inl e \<Rightarrow> Inl e
      | Inr (ts1, s1) \<Rightarrow>
          (case run_calls ld cs2 s1 of
             Inl e \<Rightarrow> Inl e
           | Inr (ts2, s2) \<Rightarrow> Inr (ts1 @ ts2, s2)))"
proof (induction cs1 arbitrary: s)
  case Nil
  then show ?case by (simp split: sum.splits)
next
  case (Cons c cs1)
  then show ?case by (cases c) (simp_all split: sum.splits prod.splits)
qed

lemma run_registrations:
  "registry_ok s \<Longrightarrow> m_loadedTextures s + int (length ts) \<le> int MAX_TEXTURES \<Longrightarrow>
   \<exists>s'. run_calls (decode_all 3) (map (CallCreateGLTexture f) ts) s = Inr (ts, s') \<and>
        registry_ok s' \<and> m_loadedTextures s' = m_loadedTextures s + int (length ts)"
proof (induction ts arbitrary: s)
  case Nil
  then show ?case by simp
next
  case (Cons t ts)
  have room: "m_loadedTextures s < int MAX_TEXTURES" using Cons.prems(2) by simp
  from CreateGLTexture_room[OF Cons.prems(1) room, of "decode_all 3" f _ t]
  obtain s1 where c1: "CreateGLTexture (decode_all 3) f t s = Inr (True, s1)"
    by (auto simp add: decode_all_def)
  from CreateGLTexture_registry[OF Cons.prems(1) c1]
  have ok1: "registry_ok s1" and t1: "registry_tags s1 = registry_tags s @ [t]" by simp_all
  have cnt1: "m_loadedTextures s1 = m_loadedTextures s + 1"
    using registry_count[OF ok1] registry_count[OF Cons.prems(1)] t1 by simp
  have "m_loadedTextures s1 + int (length ts) \<le> int MAX_TEXTURES"
    using Cons.prems(2) cnt1 by simp
  from Cons.IH[OF ok1 this] obtain s' where
    r: "run_calls (decode_all 3) (map (CallCreateGLTexture f) ts) s1 = Inr (ts, s')" and
    ok': "registry_ok s'" and cnt': "m_loadedTextures s' = m_loadedTextures s1 + int (length ts)"
    by blast
  show ?case
    by (intro exI[of _ s']) (simp add: c1 r ok' cnt' cnt1)
qed

subsection \<open>The matrix product over the reals\<close>

lemma mat4_apply_mul:
  "mat4_apply (mat4_mul a b) v = mat4_apply a (mat4_apply b v)"
  by (simp add: mat4_apply_def mat4_mul_def algebra_simps split: prod.splits)

text \<open>
  The product that \<^verbatim>\<open>SetTransformations\<close> builds acts on a point by scaling first, then
  rotating about Z, Y and X, then translating.
\<close>

lemma model_matrix_acts_in_order:
  "mat4_apply (mat4_mul (mat4_mul (mat4_mul (mat4_mul T RX) RY) RZ) S) v =
     mat4_apply T (mat4_apply RX (mat4_apply RY (mat4_apply RZ (mat4_apply S v))))"
  by (simp add: mat4_apply_mul)

subsection \<open>Slots of runs that stay inside the array\<close>

lemma slots_in_range_without_overflow:
  assumes "empty_registry s0" and "run_calls stbi_load cs s0 = Inr (tags, s)"
  shows "m_loadedTextures s \<le> 16 \<and>
         (\<exists>slot. FindTextureSlot s t = Inr slot \<and> - 1 \<le> slot \<and> slot < 16)"
proof -
  from empty_registry_ok[OF assms(1)] have ok0: "registry_ok s0" by simp
  from run_calls_registry[OF ok0 assms(2)] have ok: "registry_ok s" by simp
  then have le: "m_loadedTextures s \<le> 16" by (simp add: registry_ok_def MAX_TEXTURES_def)
  from FindTextureSlot_total[OF ok, of t] obtain slot where
    "FindTextureSlot s t = Inr slot" "- 1 \<le> slot" "slot < m_loadedTextures s"
    by blast
  with le show ?thesis by (intro conjI exI[of _ slot]) simp_all
qed

section \<open>The claims about the material registry\<close>

text \<open>
  Claim C1: for a material tag that was never defined, \<^verbatim>\<open>FindMaterial\<close> on a non-empty
  registry reports "not found" (returns \<^verbatim>\<open>false\<close>).

  The code does not: after the six materials of \<^verbatim>\<open>DefineObjectMaterials\<close> the lookup
  of the undefined tag \<^verbatim>\<open>glass\<close> returns \<^verbatim>\<open>true\<close> and leaves the out-parameter as it
  was. The loop tracks \<^verbatim>\<open>bFound\<close>, line 241 returns the constant \<^verbatim>\<open>true\<close>.
\<close>

theorem FindMaterial_undefined_tag_returns_true:
  "FindMaterial (DefineObjectMaterials (new_SceneManager (Some []))) ''glass'' stack_garbage
     = (True, stack_garbage)"
  by (rule FindMaterial_six_materials_miss) simp

text \<open>
  Claim C2: when the lookup of the tag fails, \<^verbatim>\<open>SetShaderMaterial\<close> writes none of the
  five material uniforms.

  The code does not: with the six materials defined and the undefined tag \<^verbatim>\<open>glass\<close>,
  \<^verbatim>\<open>FindMaterial\<close> returns \<^verbatim>\<open>true\<close>, the guard \<^verbatim>\<open>bReturn == true\<close> passes, and the
  five uniforms are written with the contents of the uninitialised local.
\<close>

theorem SetShaderMaterial_undefined_tag_writes_uniforms:
  "SetShaderMaterial stack_garbage ''glass'' (DefineObjectMaterials (new_SceneManager (Some []))) =
     Inr ((DefineObjectMaterials (new_SceneManager (Some [])))
       \<lparr>m_pShaderManager := Some
          [(''material.shininess'', FloatValue 7),
           (''material.specularColor'', Vec3Value (7, 7, 7)),
           (''material.diffuseColor'', Vec3Value (7, 7, 7)),
           (''material.ambientStrength'', FloatValue 7),
           (''material.ambientColor'', Vec3Value (7, 7, 7))]\<rparr>)"
proof -
  let ?s = "DefineObjectMaterials (new_SceneManager (Some []))"
  have find: "FindMaterial ?s ''glass'' stack_garbage = (True, stack_garbage)"
    by (rule FindMaterial_six_materials_miss) simp
  have len: "length (m_objectMaterials ?s) > 0"
    by (simp add: materials_DefineObjectMaterials)
  have sh: "m_pShaderManager ?s = Some []"
    by (simp add: DefineObjectMaterials_def push_back_def new_SceneManager_def)
  show ?thesis
    unfolding SetShaderMaterial_def using len
    by (simp add: find sh setFloatValue_def setVec3Value_def, simp add: stack_garbage_def)
qed



section \<open>The claims about the shader state binder\<close>

text \<open>
  Claim C10: for every texture tag, resolved or not, \<^verbatim>\<open>SetShaderTexture\<close> sets the
  flag \<^verbatim>\<open>bUseTexture\<close> to true before it looks the tag up; with an unregistered tag
  sampling stays enabled and the sampler is \<open>-1\<close>.

  With a shader manager present, the call adds exactly two writes to the log: first
  \<^verbatim>\<open>bUseTexture := 1\<close>, then \<^verbatim>\<open>objectTexture := slot\<close>, where \<open>slot\<close> is the result of
  \<^verbatim>\<open>FindTextureSlot\<close>, and \<open>-1\<close> when no entry in use carries the tag. (The log is
  most recent write first.)
\<close>

theorem SetShaderTexture_enables_sampling_first:
  assumes "m_pShaderManager s = Some sh" and "registry_ok s"
  shows "\<exists>slot. FindTextureSlot s t = Inr slot \<and>
           SetShaderTexture t s =
             Inr (s\<lparr>m_pShaderManager := Some
                    ((''objectTexture'', Sampler2DValue slot) # (''bUseTexture'', IntValue 1) # sh)\<rparr>) \<and>
           (t \<notin> set (registry_tags s) \<longrightarrow> slot = - 1)"
proof -
  from FindTextureSlot_total[OF assms(2), of t] obtain slot where
    slot: "FindTextureSlot s t = Inr slot" "t \<notin> set (registry_tags s) \<longrightarrow> slot = - 1"
    by blast
  have "SetShaderTexture t s =
          Inr (s\<lparr>m_pShaderManager := Some
                 ((''objectTexture'', Sampler2DValue slot) # (''bUseTexture'', IntValue 1) # sh)\<rparr>)"
    by (simp add: SetShaderTexture_def assms(1) slot(1) setIntValue_def setSampler2DValue_def
          g_UseTextureName_def g_TextureValueName_def)
  with slot show ?thesis by (intro exI[of _ slot]) simp
qed

theorem SetShaderTexture_enables_sampling_first_witness:
  "SetShaderTexture ''missing'' (new_SceneManager (Some []) :: real SceneManager) =
     Inr ((new_SceneManager (Some []))\<lparr>m_pShaderManager := Some
            [(''objectTexture'', Sampler2DValue (- 1)), (''bUseTexture'', IntValue 1)]\<rparr>)
   \<and> uniform [(''objectTexture'', Sampler2DValue (- 1)), (''bUseTexture'', IntValue (1::int))]
         ''bUseTexture'' = Some (IntValue 1 :: real uniform_value)"
proof -
  let ?s = "new_SceneManager (Some []) :: real SceneManager"
  have sh: "m_pShaderManager ?s = Some []" by (simp add: new_SceneManager_def)
  have ok: "registry_ok ?s" by (simp add: registry_ok_def new_SceneManager_def)
  have tags: "registry_tags ?s = []" by (simp add: registry_tags_def new_SceneManager_def)
  from SetShaderTexture_enables_sampling_first[OF sh ok, of "''missing''"] tags
  show ?thesis by (auto simp add: uniform_def)
qed

text \<open>
  Claim C6: for a texture tag that was never registered, \<^verbatim>\<open>FindTextureSlot\<close> returns
  the sentinel \<open>-1\<close> without a failure, and \<^verbatim>\<open>SetShaderTexture\<close> with such a tag pushes
  \<open>-1\<close> as the sampler uniform.

  The registry starts empty and is filled by any sequence of calls of
  \<^verbatim>\<open>CreateGLTexture\<close> and \<^verbatim>\<open>BindGLTextures\<close>; \<open>tags\<close> are the tags of the calls that
  returned \<^verbatim>\<open>true\<close>. For a tag not among them the lookup returns \<open>-1\<close> (and no
  fault), and with a shader manager present \<^verbatim>\<open>SetShaderTexture\<close> returns normally and
  leaves \<^verbatim>\<open>objectTexture\<close> at \<open>-1\<close>.
\<close>

theorem FindTextureSlot_unregistered_sentinel:
  assumes "empty_registry s0" and "run_calls stbi_load cs s0 = Inr (tags, s)"
    and "t \<notin> set tags" and "m_pShaderManager s = Some sh"
  shows "FindTextureSlot s t = Inr (- 1) \<and>
         (\<exists>s'. SetShaderTexture t s = Inr s' \<and>
               (\<exists>sh'. m_pShaderManager s' = Some sh' \<and>
                      uniform sh' ''objectTexture'' = Some (Sampler2DValue (- 1))))"
proof -
  from empty_registry_ok[OF assms(1)]
  have ok0: "registry_ok s0" and t0: "registry_tags s0 = []" by simp_all
  from run_calls_registry[OF ok0 assms(2)] t0
  have ok: "registry_ok s" and tags: "registry_tags s = tags" by simp_all
  have miss: "FindTextureSlot s t = Inr (- 1)"
    by (rule FindTextureSlot_miss[OF ok]) (simp add: tags assms(3))
  let ?sh' = "setSampler2DValue g_TextureValueName (- 1) (setIntValue g_UseTextureName 1 sh)"
  have set: "SetShaderTexture t s = Inr (s\<lparr>m_pShaderManager := Some ?sh'\<rparr>)"
    by (simp add: SetShaderTexture_def assms(4) miss)
  have val: "uniform ?sh' ''objectTexture'' = Some (Sampler2DValue (- 1))"
    by (simp add: uniform_def setSampler2DValue_def g_TextureValueName_def)
  have "\<exists>sh'. m_pShaderManager (s\<lparr>m_pShaderManager := Some ?sh'\<rparr>) = Some sh' \<and>
              uniform sh' ''objectTexture'' = Some (Sampler2DValue (- 1))"
    using val by simp
  with set miss show ?thesis by blast
qed

theorem FindTextureSlot_unregistered_sentinel_witness:
  "\<exists>s. run_calls decode_sample sample_calls (new_SceneManager (Some []) :: real SceneManager)
          = Inr ([''A'', ''B''], s) \<and>
       FindTextureSlot s ''missing'' = Inr (- 1) \<and>
       (\<exists>s'. SetShaderTexture ''missing'' s = Inr s' \<and>
             (\<exists>sh'. m_pShaderManager s' = Some sh' \<and>
                    uniform sh' ''objectTexture'' = Some (Sampler2DValue (- 1))))"
proof -
  from sample_run[of "Some []"] obtain s :: "real SceneManager" where
    run: "run_calls decode_sample sample_calls (new_SceneManager (Some [])) = Inr ([''A'', ''B''], s)"
    and sh: "m_pShaderManager s = Some []"
    by blast
  have e: "empty_registry (new_SceneManager (Some []) :: real SceneManager)"
    by (simp add: empty_registry_def new_SceneManager_def)
  have "''missing'' \<notin> set [''A'', ''B'']" by simp
  from FindTextureSlot_unregistered_sentinel[OF e run this sh] run
  show ?thesis by blast
qed

text \<open>
  Claim C4: for all scale, rotation and position inputs \<^verbatim>\<open>SetTransformations\<close> computes
  the model matrix \<^verbatim>\<open>translate(position) * rotateX(rx) * rotateY(ry) * rotateZ(rz) * scale(s)\<close>,
  translation outermost and scale innermost, and pushes exactly that matrix to the
  uniform \<^verbatim>\<open>model\<close>.

  For every implementation \<open>glm\<close> of the five library operations and every state with a
  shader manager, the call adds one write to the log: \<^verbatim>\<open>model\<close> receives the product,
  taken from left to right, of the translation by the position, the rotations about the
  axes \<open>(1,0,0)\<close>, \<open>(0,1,0)\<close> and \<open>(0,0,1)\<close> by the angles converted with
  \<^verbatim>\<open>radians\<close>, and the scale. Nothing else of the state changes.
\<close>

theorem SetTransformations_model_matrix:
  assumes "m_pShaderManager s = Some sh"
  shows "SetTransformations glm scaleXYZ rx ry rz positionXYZ s =
     s\<lparr>m_pShaderManager := Some
        ((''model'',
          Mat4Value
            (glm_mul glm
              (glm_mul glm
                (glm_mul glm
                  (glm_mul glm (glm_translate glm positionXYZ)
                     (glm_rotate glm (glm_radians glm rx) (1, 0, 0)))
                  (glm_rotate glm (glm_radians glm ry) (0, 1, 0)))
                (glm_rotate glm (glm_radians glm rz) (0, 0, 1)))
              (glm_scale glm scaleXYZ))) # sh)\<rparr>"
  using assms
  by (simp add: SetTransformations_def Let_def setMat4Value_def g_ModelName_def)

text \<open>
  Over the reals: scale \<open>(1,1,1)\<close>, no rotation, position \<open>(5,0,0)\<close> gives the matrix
  that moves the origin to \<open>(5,0,0)\<close>.
\<close>

theorem SetTransformations_model_matrix_witness:
  "SetTransformations glm_real (1, 1, 1) 0 0 0 (5, 0, 0) (new_SceneManager (Some [])) =
     (new_SceneManager (Some []))\<lparr>m_pShaderManager := Some
        [(''model'', Mat4Value ((1, 0, 0, 0), (0, 1, 0, 0), (0, 0, 1, 0), (5, 0, 0, 1)))]\<rparr>
   \<and> mat4_apply ((1, 0, 0, 0), (0, 1, 0, 0), (0, 0, 1, 0), (5, 0, 0, 1)) (0, 0, 0, 1) = (5, 0, 0, 1)"
  using SetTransformations_model_matrix[of "new_SceneManager (Some [])" "[]" glm_real
      "(1, 1, 1)" 0 0 0 "(5, 0, 0)"]
  by (simp add: new_SceneManager_def glm_real_def real_scale_def real_rotate_def
        real_translate_def mat4_mul_def mat4_apply_def Let_def)

section \<open>The claims about the texture registry\<close>

text \<open>
  Claim C7: for a decoded image whose channel count is neither 3 nor 4,
  \<^verbatim>\<open>CreateGLTexture\<close> returns failure and the entry count of the registry is unchanged;
  3-channel and 4-channel images both succeed.

  For a file that decodes to \<open>img\<close>: with any other channel count the call returns
  \<^verbatim>\<open>false\<close> and leaves counter and array as they were; with 3 or 4 channels, and a free
  slot left in the array, it returns \<^verbatim>\<open>true\<close>, stores the tag at the old counter
  position and increments the counter.
\<close>

theorem CreateGLTexture_channel_count:
  assumes "stbi_load filename = Some img"
  shows "(colorChannels img \<noteq> 3 \<and> colorChannels img \<noteq> 4 \<longrightarrow>
            (\<exists>s'. CreateGLTexture stbi_load filename t s = Inr (False, s') \<and>
                  m_loadedTextures s' = m_loadedTextures s \<and>
                  m_textureIDs s' = m_textureIDs s)) \<and>
         ((colorChannels img = 3 \<or> colorChannels img = 4) \<and>
          0 \<le> m_loadedTextures s \<and> m_loadedTextures s < int (length (m_textureIDs s)) \<longrightarrow>
            (\<exists>s'. CreateGLTexture stbi_load filename t s = Inr (True, s') \<and>
                  m_loadedTextures s' = m_loadedTextures s + 1 \<and>
                  tex_tag (m_textureIDs s' ! nat (m_loadedTextures s)) = t))"
  using assms
  by (auto simp add: CreateGLTexture_def Let_def split: prod.splits)

theorem CreateGLTexture_channel_count_witness:
  "(\<exists>s'. CreateGLTexture decode_sample ''grey.png'' ''G'' (new_SceneManager None :: real SceneManager)
            = Inr (False, s') \<and> m_loadedTextures s' = 0) \<and>
   (\<exists>s'. CreateGLTexture decode_sample ''a.jpg'' ''A'' (new_SceneManager None :: real SceneManager)
            = Inr (True, s') \<and> m_loadedTextures s' = 1) \<and>
   (\<exists>s'. CreateGLTexture decode_sample ''b.png'' ''B'' (new_SceneManager None :: real SceneManager)
            = Inr (True, s') \<and> m_loadedTextures s' = 1)"
  using
    CreateGLTexture_channel_count[of decode_sample "''grey.png''"
      "\<lparr>width = 64, height = 64, colorChannels = 1\<rparr>" "''G''" "new_SceneManager None :: real SceneManager"]
    CreateGLTexture_channel_count[of decode_sample "''a.jpg''"
      "\<lparr>width = 64, height = 64, colorChannels = 3\<rparr>" "''A''" "new_SceneManager None :: real SceneManager"]
    CreateGLTexture_channel_count[of decode_sample "''b.png''"
      "\<lparr>width = 64, height = 64, colorChannels = 4\<rparr>" "''B''" "new_SceneManager None :: real SceneManager"]
  by (simp add: decode_sample_def new_SceneManager_def MAX_TEXTURES_def, blast)

text \<open>
  The lookup after a run, whatever the tags: starting from an empty registry, let \<open>tags\<close>
  be the tags of the successful registrations in call order. For the tag of the \<open>k\<close>-th
  of them the lookup returns the position \<open>j \<le> k\<close> of the first successful registration
  with the same tag, and \<open>j = k\<close> when the tags are pairwise distinct.
  \<^verbatim>\<open>BindGLTextures\<close> then returns normally, the lookup gives the same \<open>j\<close> afterwards,
  and texture unit \<open>j\<close> holds the texture of entry \<open>j\<close>.
\<close>

lemma FindTextureSlot_first_match:
  assumes "empty_registry s0" and "run_calls stbi_load cs s0 = Inr (tags, s)"
    and "k < length tags"
  shows "\<exists>j\<le>k. FindTextureSlot s (tags ! k) = Inr (int j) \<and>
           tags ! j = tags ! k \<and> (\<forall>i<j. tags ! i \<noteq> tags ! k) \<and>
           m_loadedTextures s = int (length tags) \<and> int j < m_loadedTextures s \<and>
           (distinct tags \<longrightarrow> j = k) \<and>
           (\<exists>s'. BindGLTextures s = Inr s' \<and>
                 FindTextureSlot s' (tags ! k) = Inr (int j) \<and>
                 gl_binding_2d (gl s') (int j) = tex_ID (m_textureIDs s' ! j))"
proof -
  from empty_registry_ok[OF assms(1)]
  have ok0: "registry_ok s0" and t0: "registry_tags s0 = []" by simp_all
  from run_calls_registry[OF ok0 assms(2)] t0
  have ok: "registry_ok s" and tags: "registry_tags s = tags" by simp_all
  have cnt: "m_loadedTextures s = int (length tags)"
    using registry_count[OF ok] tags by simp
  have "tags ! k \<in> set tags" using assms(3) by simp
  from first_occurrence[OF this]
  obtain j where j: "j < length tags" "tags ! j = tags ! k" "\<forall>i<j. tags ! i \<noteq> tags ! k"
    by (elim exE conjE)
  have jk: "j \<le> k"
  proof (rule ccontr)
    assume "\<not> j \<le> k"
    then have "k < j" by simp
    with j(3) have "tags ! k \<noteq> tags ! k" by blast
    then show False by simp
  qed
  have find: "FindTextureSlot s (tags ! k) = Inr (int j)"
    by (rule FindTextureSlot_hit[OF ok]) (simp_all add: tags j)
  have dist: "distinct tags \<longrightarrow> j = k"
    using j(1,2) assms(3) by (auto simp add: nth_eq_iff_index_eq)
  from BindGLTextures_binds[OF ok] obtain s' where
    b: "BindGLTextures s = Inr s'" and
    units: "\<forall>i. 0 \<le> i \<and> i < m_loadedTextures s \<longrightarrow>
               gl_binding_2d (gl s') i = tex_ID (m_textureIDs s ! nat i)"
    by blast
  from BindGLTextures_registry[OF b]
  have same: "m_textureIDs s' = m_textureIDs s" "m_loadedTextures s' = m_loadedTextures s"
    by simp_all
  have find': "FindTextureSlot s' (tags ! k) = Inr (int j)"
    using find by (simp add: FindTextureSlot_def same)
  have "0 \<le> int j \<and> int j < m_loadedTextures s" using j(1) cnt by simp
  with units have "gl_binding_2d (gl s') (int j) = tex_ID (m_textureIDs s ! nat (int j))"
    by blast
  then have unit: "gl_binding_2d (gl s') (int j) = tex_ID (m_textureIDs s' ! j)"
    by (simp add: same)
  have lt: "int j < m_loadedTextures s" using j(1) cnt by simp
  from b find' unit
  have ex: "\<exists>s'. BindGLTextures s = Inr s' \<and> FindTextureSlot s' (tags ! k) = Inr (int j) \<and>
                 gl_binding_2d (gl s') (int j) = tex_ID (m_textureIDs s' ! j)"
    by blast
  from jk find j(2,3) cnt lt dist ex show ?thesis
    by (intro exI[of _ j]) simp
qed

text \<open>
  Claim C5: for every tag registered by a successful call of \<^verbatim>\<open>CreateGLTexture\<close>,
  \<^verbatim>\<open>FindTextureSlot\<close> after \<^verbatim>\<open>BindGLTextures\<close> returns the tag's registration order
  position, a value in \<open>[0, N)\<close> for \<open>N\<close> successful registrations; in particular the
  first and second registered tags resolve to slots 0 and 1.

  Texture tags are unique within the registry (section 3 of the specification). The
  registry starts empty and is filled by any sequence of calls of \<^verbatim>\<open>CreateGLTexture\<close>
  and \<^verbatim>\<open>BindGLTextures\<close>; \<open>tags\<close> are the tags of the calls that returned \<^verbatim>\<open>true\<close>,
  in call order, and they are pairwise distinct. Then the counter \<^verbatim>\<open>m_loadedTextures\<close>
  is their number \<open>N\<close>, and for every position \<open>k < N\<close> the lookup of the \<open>k\<close>-th tag
  returns \<open>k\<close>, before \<^verbatim>\<open>BindGLTextures\<close> and after it; \<^verbatim>\<open>BindGLTextures\<close> returns
  normally and texture unit \<open>k\<close> then holds the texture of entry \<open>k\<close>.
\<close>

theorem FindTextureSlot_registration_position:
  assumes "empty_registry s0" and "run_calls stbi_load cs s0 = Inr (tags, s)"
    and "distinct tags" and "k < length tags"
  shows "FindTextureSlot s (tags ! k) = Inr (int k) \<and>
         0 \<le> int k \<and> int k < m_loadedTextures s \<and>
         m_loadedTextures s = int (length tags) \<and>
         (\<exists>s'. BindGLTextures s = Inr s' \<and>
               FindTextureSlot s' (tags ! k) = Inr (int k) \<and>
               gl_binding_2d (gl s') (int k) = tex_ID (m_textureIDs s' ! k))"
proof -
  from FindTextureSlot_first_match[OF assms(1,2,4)] obtain j where
    j: "FindTextureSlot s (tags ! k) = Inr (int j)"
       "m_loadedTextures s = int (length tags)"
       "int j < m_loadedTextures s"
       "distinct tags \<longrightarrow> j = k"
       "\<exists>s'. BindGLTextures s = Inr s' \<and>
             FindTextureSlot s' (tags ! k) = Inr (int j) \<and>
             gl_binding_2d (gl s') (int j) = tex_ID (m_textureIDs s' ! j)"
    by blast
  from j(4) assms(3) have "j = k" by simp
  with j(1,2,3,5) show ?thesis by simp
qed

theorem FindTextureSlot_registration_position_witness:
  "\<exists>s. run_calls decode_sample sample_calls (new_SceneManager None :: real SceneManager)
          = Inr ([''A'', ''B''], s) \<and>
       FindTextureSlot s ''A'' = Inr 0 \<and> FindTextureSlot s ''B'' = Inr 1 \<and>
       m_loadedTextures s = 2"
proof -
  from sample_run[of None] obtain s :: "real SceneManager" where
    run: "run_calls decode_sample sample_calls (new_SceneManager None) = Inr ([''A'', ''B''], s)"
    by blast
  have e: "empty_registry (new_SceneManager None :: real SceneManager)"
    by (simp add: empty_registry_def new_SceneManager_def)
  have d: "distinct [''A'', ''B'']" by simp
  from FindTextureSlot_registration_position[OF e run d, of 0]
       FindTextureSlot_registration_position[OF e run d, of 1]
  have "FindTextureSlot s ''A'' = Inr 0 \<and> FindTextureSlot s ''B'' = Inr 1 \<and> m_loadedTextures s = 2"
    by simp
  with run show ?thesis by blast
qed

text \<open>
  Claim C3: after \<^verbatim>\<open>DestroyGLTextures\<close> all texture resources of the graphics context
  are freed and the registry is empty (its entry count is zero).

  The code does not: the loop body calls \<^verbatim>\<open>glGenTextures\<close>, which generates a name,
  and the counter is not reset. After registering one texture \<open>A\<close> (name 1) and calling
  \<^verbatim>\<open>DestroyGLTextures\<close>, the counter is still 1, the lookup of \<open>A\<close> still returns slot
  0, the context holds the names 1 and 2 (nothing was deleted), and the entry now refers
  to the new name 2.
\<close>

theorem DestroyGLTextures_frees_nothing:
  "\<not> isl destroy_run \<and>
   m_loadedTextures (projr destroy_run) = 1 \<and>
   FindTextureSlot (projr destroy_run) ''A'' = Inr 0 \<and>
   gl_textures (gl (projr destroy_run)) = [1, 2] \<and>
   tex_ID (m_textureIDs (projr destroy_run) ! 0) = 2"
  by (simp add: destroy_run_def CreateGLTexture_def decode_sample_def new_SceneManager_def
        new_GLContext_def glGenTextures_def glBindTexture_def glTexImage2D_def
        DestroyGLTextures_def DestroyGLTextures_loop.simps MAX_TEXTURES_def
        FindTextureSlot_def FindTextureSlot_loop.simps tex_at_def Let_def)

text \<open>
  Claim C9: after any sequence of calls of \<^verbatim>\<open>CreateGLTexture\<close> and
  \<^verbatim>\<open>BindGLTextures\<close>, every slot index assigned to a bound texture lies in \<open>[0, 16)\<close>.

  The code does not keep the bound: \<^verbatim>\<open>CreateGLTexture\<close> writes to
  \<^verbatim>\<open>m_textureIDs[m_loadedTextures]\<close> without comparing the counter with the size of the
  array. The seventeenth successful image load uses index 16 of the 16-element array,
  which is undefined behaviour.
\<close>

theorem seventeenth_texture_overflows:
  "run_calls (decode_all 3)
     (map (CallCreateGLTexture ''image.jpg'') seventeen_tags @ [CallBindGLTextures])
     (new_SceneManager None :: real SceneManager)
   = Inl (ArrayIndexOutOfBounds 16)"
proof -
  let ?s0 = "new_SceneManager None :: real SceneManager"
  let ?first = "take 16 seventeen_tags"
  have split: "seventeen_tags = ?first @ [''t17'']" by (simp add: seventeen_tags_def)
  have len: "length ?first = 16" by (simp add: seventeen_tags_def)
  have ok0: "registry_ok ?s0" and cnt0: "m_loadedTextures ?s0 = 0"
    by (simp_all add: registry_ok_def new_SceneManager_def)
  have "m_loadedTextures ?s0 + int (length ?first) \<le> int MAX_TEXTURES"
    unfolding len cnt0 by (simp add: MAX_TEXTURES_def)
  from run_registrations[OF ok0 this, of "''image.jpg''"] obtain s16 where
    r16: "run_calls (decode_all 3) (map (CallCreateGLTexture ''image.jpg'') ?first) ?s0
            = Inr (?first, s16)" and
    ok16: "registry_ok s16" and
    cnt16: "m_loadedTextures s16 = m_loadedTextures ?s0 + int (length ?first)"
    by blast
  have full: "m_loadedTextures s16 = int MAX_TEXTURES"
    unfolding cnt16 len cnt0 by (simp add: MAX_TEXTURES_def)
  have over: "CreateGLTexture (decode_all 3) ''image.jpg'' ''t17'' s16 = Inl (ArrayIndexOutOfBounds 16)"
    by (rule CreateGLTexture_full[OF ok16 full,
          where img = "\<lparr>width = 64, height = 64, colorChannels = 3\<rparr>"])
       (simp_all add: decode_all_def)
  have calls: "map (CallCreateGLTexture ''image.jpg'') seventeen_tags @ [CallBindGLTextures]
        = map (CallCreateGLTexture ''image.jpg'') ?first
          @ [CallCreateGLTexture ''image.jpg'' ''t17'', CallBindGLTextures]"
    by (subst split) simp
  show ?thesis
    unfolding calls by (simp add: run_calls_append r16 over)
qed

end
